theory Spec2Isabelle
  imports Main "HOL-Library.Sublist"
begin

section \<open>The parse tree read by the builder (module pegnode)\<close>

text \<open>
  Modelled from the spec: the module \<open>pegnode\<close> (the generated recognizer and its node
  classes) is not among the sources. \<open>parse.py\<close> only tests the class of a node with
  \<open>isinstance\<close> and reads the \<open>text\<close> of named children, so a node is the tag of its
  class together with the texts the builder reads from it. A line of any other class
  (blank line, comment line) is \<open>OtherLine\<close>; a top-level node of any other class is
  \<open>OtherSection\<close>.

  The arguments are, in this order,
  \<^item> \<open>ConfigLine keyword value\<close>, \<open>OptionLine keyword value\<close>;
  \<^item> \<open>ServerLine server_name host port value\<close> (host and port are the texts of the
    line's \<open>service_address\<close>);
  \<^item> \<open>BindLine host port value\<close>;
  \<^item> \<open>AclLine acl_name value\<close>;
  \<^item> \<open>BackendLine backendtype backend_name operator backend_condition\<close>;
  \<^item> \<open>UserLine user_name password passwd_type groups_fragment\<close>;
  \<^item> \<open>GroupLine group_name users_fragment\<close>.
\<close>

datatype line_node =
    ConfigLine string string
  | OptionLine string string
  | ServerLine string string string string
  | BindLine string string string
  | AclLine string string
  | BackendLine string string string string
  | UserLine string string string string
  | GroupLine string string
  | OtherLine

text \<open>
  The header child \<open>service_address\<close> of a frontend or listen section is either an
  instance of \<open>pegnode.ServiceAddress\<close>, with the texts of \<open>host\<close> and \<open>port\<close>, or
  some other node: \<open>Some (host, port)\<close> and \<open>None\<close>. A section node is the
  text of its header's \<open>proxy_name\<close> (but for \<open>global\<close>), that child (for
  \<open>frontend\<close> and \<open>listen\<close>) and the line nodes of its \<open>config_block\<close>.
\<close>

type_synonym service_address = "(string \<times> string) option"

datatype section_node =
    GlobalSection "line_node list"
  | FrontendSection string service_address "line_node list"
  | DefaultsSection string "line_node list"
  | ListenSection string service_address "line_node list"
  | UserlistSection string "line_node list"
  | BackendSection string "line_node list"
  | OtherSection

type_synonym pegtree = "section_node list"

section \<open>The model objects (module config)\<close>

text \<open>
  Modelled from the spec: the classes of the module \<open>config\<close> are not among the
  sources. Each is the record of the keyword arguments its constructor receives in
  \<open>parse.py\<close>, under the names of section 3 of the specification.
\<close>

record server =
  server_name :: string
  server_host :: string
  server_port :: string
  server_attributes :: "string list"

record bind =
  bind_host :: string
  bind_port :: string
  bind_attributes :: "string list"

record acl =
  acl_name :: string
  acl_value :: string

record usebackend =
  backend_name :: string
  operator :: string
  backend_condition :: string
  is_default :: bool

record user =
  user_name :: string
  passwd :: string
  passwd_type :: string
  group_names :: "string list"

record group =
  group_name :: string
  user_names :: "string list"

text \<open>
  \<open>config_block_dict\<close> is a \<open>defaultdict(list)\<close> that is only ever indexed with the
  eight literal keys below; a key never written reads as the empty list.
\<close>

record config_block_dict =
  configs :: "(string \<times> string) list"
  options :: "(string \<times> string) list"
  servers :: "server list"
  binds :: "bind list"
  acls :: "acl list"
  usebackends :: "usebackend list"
  users :: "user list"
  groups :: "group list"

record global =
  global_config_block :: config_block_dict

record defaults =
  defaults_name :: string
  defaults_config_block :: config_block_dict

record userlist =
  userlist_name :: string
  userlist_config_block :: config_block_dict

record backend =
  backend_proxy_name :: string
  backend_config_block :: config_block_dict

record listen =
  listen_name :: string
  listen_host :: string
  listen_port :: string
  listen_config_block :: config_block_dict

record frontend =
  frontend_name :: string
  frontend_host :: string
  frontend_port :: string
  frontend_config_block :: config_block_dict

text \<open>
  \<open>config.Configuration(pegtree)\<close>: the tree it was made from, the single slot
  \<open>globall\<close> (unset at first) and five sequences (empty at first).
\<close>

record configuration =
  conf_pegtree :: pegtree
  globall :: "global option"
  defaults :: "defaults list"
  frontends :: "frontend list"
  listens :: "listen list"
  userlists :: "userlist list"
  backends :: "backend list"

definition Configuration :: "pegtree \<Rightarrow> configuration" where
  "Configuration t =
     \<lparr>conf_pegtree = t, globall = None, defaults = [], frontends = [], listens = [],
      userlists = [], backends = []\<rparr>"

section \<open>Exceptions and strings\<close>

text \<open>Every \<open>raise\<close> of \<open>parse.py\<close> raises the built-in \<open>Exception\<close> with a message.\<close>

datatype error = Exception string

text \<open>
  \<open>s.split(sep)\<close> of Python for a separator that is not empty: the pieces between the
  occurrences of \<open>sep\<close>, found from the left without overlap. \<open>split_from sep cur rest\<close>
  scans \<open>rest\<close> with \<open>cur\<close> the piece read so far. (An empty separator raises
  \<open>ValueError\<close> in Python; both calls of \<open>parse.py\<close> pass a literal that is not empty.)
\<close>

function split_from :: "string \<Rightarrow> string \<Rightarrow> string \<Rightarrow> string list" where
  "split_from sep cur [] = [cur]"
| "split_from sep cur (c # cs) =
     (if sep \<noteq> [] \<and> take (length sep) (c # cs) = sep
      then cur # split_from sep [] (drop (length sep) (c # cs))
      else split_from sep (cur @ [c]) cs)"
  by pat_completeness auto
termination
  by (relation "measure (\<lambda>(sep, cur, rest). length rest)") auto

definition str_split :: "string \<Rightarrow> string \<Rightarrow> string list" where
  "str_split s sep = split_from sep [] s"

text \<open>The separator \<open>' \t'\<close>: a space followed by a tab.\<close>

definition space_tab :: string where
  "space_tab = [CHR '' '', CHR 0x09]"

text \<open>
  \<open>','.join(ps)\<close> of Python, the inverse of splitting at commas. It is no part of
  \<open>parse.py\<close>; it serves to say what a groups fragment with given pieces is.
\<close>

fun comma_join :: "string list \<Rightarrow> string" where
  "comma_join [] = []"
| "comma_join [p] = p"
| "comma_join (p # q # ps) = p @ '','' @ comma_join (q # ps)"

section \<open>The builders of parse.py\<close>

subsection \<open>Entities of one line\<close>

text \<open>A builder receives its node as the texts it reads from it.\<close>

definition build_server :: "string \<Rightarrow> string \<Rightarrow> string \<Rightarrow> string \<Rightarrow> server" where
  "build_server name host port val =
     \<lparr>server_name = name, server_host = host, server_port = port,
      server_attributes = str_split val space_tab\<rparr>"

definition build_bind :: "string \<Rightarrow> string \<Rightarrow> string \<Rightarrow> bind" where
  "build_bind host port val =
     \<lparr>bind_host = host, bind_port = port, bind_attributes = str_split val space_tab\<rparr>"

definition build_acl :: "string \<Rightarrow> string \<Rightarrow> acl" where
  "build_acl name val = \<lparr>acl_name = name, acl_value = val\<rparr>"

definition build_usebackend :: "string \<Rightarrow> string \<Rightarrow> string \<Rightarrow> string \<Rightarrow> usebackend" where
  "build_usebackend backendtype name oper cond =
     \<lparr>backend_name = name, operator = oper, backend_condition = cond,
      is_default = (backendtype = ''default_backend'')\<rparr>"

definition build_user :: "string \<Rightarrow> string \<Rightarrow> string \<Rightarrow> string \<Rightarrow> user" where
  "build_user name password ptype groups_fragment =
     \<lparr>user_name = name, passwd = password, passwd_type = ptype,
      group_names = (if groups_fragment \<noteq> [] then str_split groups_fragment '','' else [])\<rparr>"

definition build_group :: "string \<Rightarrow> string \<Rightarrow> group" where
  "build_group name users_fragment =
     \<lparr>group_name = name,
      user_names = (if users_fragment \<noteq> [] then str_split users_fragment '','' else [])\<rparr>"

subsection \<open>The config block of a section\<close>

text \<open>One turn of the loop of \<open>__build_config_block\<close>: the \<open>isinstance\<close> chain.\<close>

fun config_block_line :: "config_block_dict \<Rightarrow> line_node \<Rightarrow> config_block_dict" where
  "config_block_line d (ConfigLine k v) = d\<lparr>configs := configs d @ [(k, v)]\<rparr>"
| "config_block_line d (OptionLine k v) = d\<lparr>options := options d @ [(k, v)]\<rparr>"
| "config_block_line d (ServerLine n h p v) = d\<lparr>servers := servers d @ [build_server n h p v]\<rparr>"
| "config_block_line d (BindLine h p v) = d\<lparr>binds := binds d @ [build_bind h p v]\<rparr>"
| "config_block_line d (AclLine n v) = d\<lparr>acls := acls d @ [build_acl n v]\<rparr>"
| "config_block_line d (BackendLine t n oper c) =
     d\<lparr>usebackends := usebackends d @ [build_usebackend t n oper c]\<rparr>"
| "config_block_line d (UserLine n pw pt g) = d\<lparr>users := users d @ [build_user n pw pt g]\<rparr>"
| "config_block_line d (GroupLine n u) = d\<lparr>groups := groups d @ [build_group n u]\<rparr>"
| "config_block_line d OtherLine = d"

fun config_block_loop :: "config_block_dict \<Rightarrow> line_node list \<Rightarrow> config_block_dict" where
  "config_block_loop d [] = d"
| "config_block_loop d (l # ls) = config_block_loop (config_block_line d l) ls"

definition empty_config_block :: config_block_dict where
  "empty_config_block =
     \<lparr>configs = [], options = [], servers = [], binds = [], acls = [],
      usebackends = [], users = [], groups = []\<rparr>"

definition build_config_block :: "line_node list \<Rightarrow> config_block_dict" where
  "build_config_block ls = config_block_loop empty_config_block ls"

subsection \<open>Sections\<close>

definition build_global :: "line_node list \<Rightarrow> global" where
  "build_global config_block = \<lparr>global_config_block = build_config_block config_block\<rparr>"

definition build_defaults :: "string \<Rightarrow> line_node list \<Rightarrow> defaults" where
  "build_defaults proxy_name config_block =
     \<lparr>defaults_name = proxy_name,
      defaults_config_block = build_config_block config_block\<rparr>"

definition build_userlist :: "string \<Rightarrow> line_node list \<Rightarrow> userlist" where
  "build_userlist proxy_name config_block =
     \<lparr>userlist_name = proxy_name,
      userlist_config_block = build_config_block config_block\<rparr>"

definition build_backend :: "string \<Rightarrow> line_node list \<Rightarrow> backend" where
  "build_backend proxy_name config_block =
     \<lparr>backend_proxy_name = proxy_name,
      backend_config_block = build_config_block config_block\<rparr>"

text \<open>
  The \<open>for ... break ... else\<close> of \<open>build_listen\<close> and \<open>build_frontend\<close> takes the
  first element of \<open>binds\<close> and raises when there is none.
\<close>

definition build_listen :: "string \<Rightarrow> service_address \<Rightarrow> line_node list \<Rightarrow> error + listen" where
  "build_listen proxy_name service_address_node config_block =
     (let d = build_config_block config_block in
      case service_address_node of
        Some (h, p) \<Rightarrow>
          Inr \<lparr>listen_name = proxy_name, listen_host = h, listen_port = p,
               listen_config_block = d\<rparr>
      | None \<Rightarrow>
          (case binds d of
             b # _ \<Rightarrow>
               Inr \<lparr>listen_name = proxy_name, listen_host = bind_host b,
                    listen_port = bind_port b, listen_config_block = d\<rparr>
           | [] \<Rightarrow> Inl (Exception ''Not specify host and port in `listen` definition'')))"

definition build_frontend ::
    "string \<Rightarrow> service_address \<Rightarrow> line_node list \<Rightarrow> error + frontend" where
  "build_frontend proxy_name service_address_node config_block =
     (let d = build_config_block config_block in
      case service_address_node of
        Some (h, p) \<Rightarrow>
          Inr \<lparr>frontend_name = proxy_name, frontend_host = h, frontend_port = p,
               frontend_config_block = d\<rparr>
      | None \<Rightarrow>
          (case binds d of
             b # _ \<Rightarrow>
               Inr \<lparr>frontend_name = proxy_name, frontend_host = bind_host b,
                    frontend_port = bind_port b, frontend_config_block = d\<rparr>
           | [] \<Rightarrow> Inl (Exception ''Not specify host and port in `frontend` definition'')))"

subsection \<open>The parser object and build_configuration\<close>

text \<open>
  The files the process can read, by path. \<open>__read_string_from_file\<close> gives the
  content of a file that exists and the empty string for a path that does not. (A
  path that exists and cannot be opened or read makes \<open>open\<close> raise; such paths are
  not part of this model.)
\<close>

type_synonym files = "string \<rightharpoonup> string"

definition read_string_from_file :: "files \<Rightarrow> string \<Rightarrow> string" where
  "read_string_from_file fs filepath =
     (case fs filepath of Some content \<Rightarrow> content | None \<Rightarrow> [])"

text \<open>
  The attributes of a \<open>Parser\<close>: \<open>filestring\<close>, set by \<open>__init__\<close>, and \<open>pegtree\<close>,
  which \<open>build_configuration\<close> assigns (\<open>None\<close> before its first assignment).
\<close>

record parser =
  filestring :: string
  pegtree :: "pegtree option"

definition Parser :: "files \<Rightarrow> string \<Rightarrow> error + parser" where
  "Parser fs filepath =
     (let s = read_string_from_file fs filepath in
      if s = [] then Inl (Exception (''error reading from file '' @ filepath))
      else Inr \<lparr>filestring = s, pegtree = None\<rparr>)"

text \<open>One turn of the loop of \<open>build_configuration\<close>: the \<open>isinstance\<close> chain.\<close>

fun configuration_section :: "configuration \<Rightarrow> section_node \<Rightarrow> error + configuration" where
  "configuration_section c (GlobalSection b) =
     Inr (c\<lparr>globall := Some (build_global b)\<rparr>)"
| "configuration_section c (FrontendSection n a b) =
     (case build_frontend n a b of
        Inl e \<Rightarrow> Inl e
      | Inr f \<Rightarrow> Inr (c\<lparr>frontends := frontends c @ [f]\<rparr>))"
| "configuration_section c (DefaultsSection n b) =
     Inr (c\<lparr>defaults := defaults c @ [build_defaults n b]\<rparr>)"
| "configuration_section c (ListenSection n a b) =
     (case build_listen n a b of
        Inl e \<Rightarrow> Inl e
      | Inr l \<Rightarrow> Inr (c\<lparr>listens := listens c @ [l]\<rparr>))"
| "configuration_section c (UserlistSection n b) =
     Inr (c\<lparr>userlists := userlists c @ [build_userlist n b]\<rparr>)"
| "configuration_section c (BackendSection n b) =
     Inr (c\<lparr>backends := backends c @ [build_backend n b]\<rparr>)"
| "configuration_section c OtherSection = Inr c"

fun configuration_loop :: "configuration \<Rightarrow> section_node list \<Rightarrow> error + configuration" where
  "configuration_loop c [] = Inr c"
| "configuration_loop c (n # ns) =
     (case configuration_section c n of
        Inl e \<Rightarrow> Inl e
      | Inr c' \<Rightarrow> configuration_loop c' ns)"

text \<open>
  \<open>build_configuration\<close>, with the recognizer \<open>pegnode.parse\<close> as the parameter
  \<open>parse\<close> (it returns a tree or raises). The result is what the call returns or
  raises, and the parser object after the call: \<open>self.pegtree\<close> is assigned once
  \<open>parse\<close> has returned, before the loop.
\<close>

definition build_configuration ::
    "(string \<Rightarrow> error + pegtree) \<Rightarrow> parser \<Rightarrow> (error + configuration) \<times> parser" where
  "build_configuration parse self =
     (case parse (filestring self) of
        Inl e \<Rightarrow> (Inl e, self)
      | Inr t \<Rightarrow> (configuration_loop (Configuration t) t, self\<lparr>pegtree := Some t\<rparr>))"

section \<open>What one pass over the lines collects\<close>

text \<open>
  Each sequence of the block is the projection of the lines of one class, in the order
  of the lines: the loop appends and never removes or reorders.
\<close>

lemma config_block_loop_configs:
  "configs (config_block_loop d ls) = configs d @ [(k, v). ConfigLine k v \<leftarrow> ls]"
proof (induction ls arbitrary: d)
  case Nil
  show ?case by simp
next
  case (Cons l ls)
  show ?case by (cases l) (simp_all add: Cons.IH)
qed

lemma config_block_loop_options:
  "options (config_block_loop d ls) = options d @ [(k, v). OptionLine k v \<leftarrow> ls]"
proof (induction ls arbitrary: d)
  case Nil
  show ?case by simp
next
  case (Cons l ls)
  show ?case by (cases l) (simp_all add: Cons.IH)
qed

lemma config_block_loop_binds:
  "binds (config_block_loop d ls) = binds d @ [build_bind h p v. BindLine h p v \<leftarrow> ls]"
proof (induction ls arbitrary: d)
  case Nil
  show ?case by simp
next
  case (Cons l ls)
  show ?case by (cases l) (simp_all add: Cons.IH)
qed

lemma binds_of_block:
  "binds (build_config_block ls) = [build_bind h p v. BindLine h p v \<leftarrow> ls]"
  by (simp add: build_config_block_def empty_config_block_def config_block_loop_binds)

lemma no_bind_lines:
  "(\<forall>h p v. BindLine h p v \<notin> set ls) \<Longrightarrow> [build_bind h p v. BindLine h p v \<leftarrow> ls] = []"
proof (induction ls)
  case Nil
  show ?case by simp
next
  case (Cons l ls)
  then show ?case by (cases l) auto
qed

lemma binds_first_bind_line:
  assumes "\<forall>h' p' v'. BindLine h' p' v' \<notin> set pre"
  shows "binds (build_config_block (pre @ BindLine h p v # post)) =
    build_bind h p v # [build_bind h p v. BindLine h p v \<leftarrow> post]"
  using no_bind_lines [OF assms] by (simp add: binds_of_block)

section \<open>The address of a frontend or listen section\<close>

text \<open>
  C1. A frontend or listen section whose header has no address and whose body has a
  bind line gets the host and the port of the first bind line of the body, whatever
  the lines after it are: with \<open>pre\<close> free of bind lines, the section with the body
  \<open>pre @ BindLine h p v # post\<close> is built with host \<open>h\<close> and port \<open>p\<close>.
\<close>

theorem first_bind_gives_address:
  assumes "\<forall>h' p' v'. BindLine h' p' v' \<notin> set pre"
  shows "build_frontend name None (pre @ BindLine h p v # post) =
      Inr \<lparr>frontend_name = name, frontend_host = h, frontend_port = p,
           frontend_config_block = build_config_block (pre @ BindLine h p v # post)\<rparr> \<and>
    build_listen name None (pre @ BindLine h p v # post) =
      Inr \<lparr>listen_name = name, listen_host = h, listen_port = p,
           listen_config_block = build_config_block (pre @ BindLine h p v # post)\<rparr>"
  using binds_first_bind_line [OF assms, of h p v post]
  by (simp add: build_frontend_def build_listen_def build_bind_def)

theorem first_bind_gives_address_witness:
  "(\<forall>h' p' v'. BindLine h' p' v' \<notin> set [ConfigLine ''mode'' ''http'']) \<and>
   build_frontend ''web'' None
       [ConfigLine ''mode'' ''http'', BindLine ''127.0.0.1'' ''8080'' [],
        BindLine ''127.0.0.1'' ''9090'' []] =
     Inr \<lparr>frontend_name = ''web'', frontend_host = ''127.0.0.1'', frontend_port = ''8080'',
          frontend_config_block = build_config_block
            [ConfigLine ''mode'' ''http'', BindLine ''127.0.0.1'' ''8080'' [],
             BindLine ''127.0.0.1'' ''9090'' []]\<rparr> \<and>
   build_listen ''web'' None
       [ConfigLine ''mode'' ''http'', BindLine ''127.0.0.1'' ''8080'' [],
        BindLine ''127.0.0.1'' ''9090'' []] =
     Inr \<lparr>listen_name = ''web'', listen_host = ''127.0.0.1'', listen_port = ''8080'',
          listen_config_block = build_config_block
            [ConfigLine ''mode'' ''http'', BindLine ''127.0.0.1'' ''8080'' [],
             BindLine ''127.0.0.1'' ''9090'' []]\<rparr>"
proof -
  have h: "\<forall>h' p' v'. BindLine h' p' v' \<notin> set [ConfigLine ''mode'' ''http'']"
    by simp
  show ?thesis
    using h first_bind_gives_address [OF h, of "''web''" "''127.0.0.1''" "''8080''" "[]"
        "[BindLine ''127.0.0.1'' ''9090'' []]"]
    by simp
qed

text \<open>
  C2. A frontend or listen section whose header has an address gets the host and the
  port of the header as the strings they are, for every pair of strings and every
  body: the bind lines of the body play no part in the address.
\<close>

theorem header_address_verbatim:
  "build_frontend name (Some (h, p)) body =
      Inr \<lparr>frontend_name = name, frontend_host = h, frontend_port = p,
           frontend_config_block = build_config_block body\<rparr> \<and>
   build_listen name (Some (h, p)) body =
      Inr \<lparr>listen_name = name, listen_host = h, listen_port = p,
           listen_config_block = build_config_block body\<rparr>"
  by (simp add: build_frontend_def build_listen_def)

text \<open>
  C3, as amended. A frontend or listen section with no address in its header and no
  bind line in its body is not built: the builder raises an \<open>Exception\<close> whose message
  is a fixed text that tells the kind of the section (\<open>frontend\<close> or \<open>listen\<close>) and
  not its name.
\<close>

theorem missing_address_raises:
  assumes "\<forall>h p v. BindLine h p v \<notin> set body"
  shows "build_frontend name None body =
      Inl (Exception ''Not specify host and port in `frontend` definition'') \<and>
    build_listen name None body =
      Inl (Exception ''Not specify host and port in `listen` definition'')"
proof -
  have "binds (build_config_block body) = []"
    unfolding binds_of_block by (rule no_bind_lines [OF assms])
  then show ?thesis
    by (simp add: build_frontend_def build_listen_def)
qed

theorem missing_address_raises_witness:
  "(\<forall>h p v. BindLine h p v \<notin> set [ConfigLine ''mode'' ''http'', OtherLine]) \<and>
   build_frontend ''web'' None [ConfigLine ''mode'' ''http'', OtherLine] =
      Inl (Exception ''Not specify host and port in `frontend` definition'') \<and>
   build_listen ''web'' None [ConfigLine ''mode'' ''http'', OtherLine] =
      Inl (Exception ''Not specify host and port in `listen` definition'')"
proof -
  have h: "\<forall>h p v. BindLine h p v \<notin> set [ConfigLine ''mode'' ''http'', OtherLine]"
    by simp
  show ?thesis
    using h missing_address_raises [OF h, of "''web''"] by simp
qed

text \<open>
  C3 as it is written asks for an error that names the section. The sections \<open>web\<close>
  and \<open>api\<close> raise the same error, and its message does not contain \<open>web\<close>.
\<close>

theorem missing_address_error_names_no_section:
  "build_frontend ''web'' None [] =
      Inl (Exception ''Not specify host and port in `frontend` definition'') \<and>
   \<not> sublist ''web'' ''Not specify host and port in `frontend` definition'' \<and>
   build_frontend ''api'' None [] = build_frontend ''web'' None [] \<and>
   build_listen ''web'' None [] =
      Inl (Exception ''Not specify host and port in `listen` definition'') \<and>
   \<not> sublist ''web'' ''Not specify host and port in `listen` definition'' \<and>
   build_listen ''api'' None [] = build_listen ''web'' None []"
  by code_simp

section \<open>Order and duplicates of configs and options\<close>

text \<open>
  C4. The \<open>configs\<close> of a built config block are the (keyword, value) pairs of the
  generic-config lines of the body, one for each line and in the order of the lines,
  and the \<open>options\<close> are those of the option lines; so a global section with the lines
  \<open>maxconn 1024\<close> and \<open>maxconn 2048\<close> has both pairs, in that order.
\<close>

theorem configs_options_keep_source_order:
  "configs (build_config_block ls) = [(k, v). ConfigLine k v \<leftarrow> ls] \<and>
   options (build_config_block ls) = [(k, v). OptionLine k v \<leftarrow> ls] \<and>
   configs (global_config_block
       (build_global [ConfigLine ''maxconn'' ''1024'', ConfigLine ''maxconn'' ''2048''])) =
     [(''maxconn'', ''1024''), (''maxconn'', ''2048'')]"
  by (simp add: build_config_block_def build_global_def empty_config_block_def
      config_block_loop_configs config_block_loop_options)

section \<open>The loop over the sections\<close>

lemma configuration_loop_append:
  "configuration_loop c (xs @ ys) =
     (case configuration_loop c xs of Inl e \<Rightarrow> Inl e | Inr c' \<Rightarrow> configuration_loop c' ys)"
  by (induction xs arbitrary: c) (simp_all split: sum.splits)

lemma configuration_section_globall:
  "configuration_section c n = Inr c' \<Longrightarrow>
   globall c' = (case n of GlobalSection b \<Rightarrow> Some (build_global b) | _ \<Rightarrow> globall c)"
  by (cases n) (auto split: sum.splits)

lemma configuration_loop_globall:
  "configuration_loop c t = Inr c' \<Longrightarrow>
   globall c' = (if [b. GlobalSection b \<leftarrow> t] = [] then globall c
                 else Some (build_global (last [b. GlobalSection b \<leftarrow> t])))"
proof (induction t arbitrary: c)
  case Nil
  then show ?case by simp
next
  case (Cons n t)
  from Cons.prems obtain c1 where s: "configuration_section c n = Inr c1"
    and l: "configuration_loop c1 t = Inr c'"
    by (auto split: sum.splits)
  show ?case
    using Cons.IH [OF l] configuration_section_globall [OF s]
    by (cases n) simp_all
qed

lemma configuration_section_global_overwrites:
  "configuration_section (c\<lparr>globall := g\<rparr>) (GlobalSection b) =
   configuration_section c (GlobalSection b)"
  by simp

lemma configuration_section_keeps_globall:
  "(\<forall>b. n \<noteq> GlobalSection b) \<Longrightarrow>
   configuration_section (c\<lparr>globall := g\<rparr>) n =
     (case configuration_section c n of Inl e \<Rightarrow> Inl e | Inr c' \<Rightarrow> Inr (c'\<lparr>globall := g\<rparr>))"
  by (cases n) (simp_all split: sum.splits)

lemma configuration_loop_overwritten:
  "configuration_loop (c\<lparr>globall := g\<rparr>) (ys @ GlobalSection b # zs) =
   configuration_loop c (ys @ GlobalSection b # zs)"
proof (induction ys arbitrary: c)
  case Nil
  show ?case by simp
next
  case (Cons y ys)
  show ?case
  proof (cases "\<exists>b0. y = GlobalSection b0")
    case True
    then show ?thesis by auto
  next
    case False
    then have k: "configuration_section (c\<lparr>globall := g\<rparr>) y =
      (case configuration_section c y of Inl e \<Rightarrow> Inl e | Inr c' \<Rightarrow> Inr (c'\<lparr>globall := g\<rparr>))"
      by (intro configuration_section_keeps_globall) simp
    show ?thesis
    proof (cases "configuration_section c y")
      case (Inl e)
      with k show ?thesis by simp
    next
      case (Inr c1)
      with k Cons.IH [of c1] show ?thesis by simp
    qed
  qed
qed

text \<open>
  C5. When the tree of the input has global sections and \<open>build_configuration\<close>
  returns a configuration, its slot \<open>globall\<close> is the output of \<open>build_global\<close> for
  the last global section of the tree. A global section that is followed by another
  one leaves no trace in the result of the loop: the loop gives the same result with
  that section taken out of the tree.
\<close>

theorem last_global_wins:
  assumes "parse (filestring self) = Inr t"
    and "fst (build_configuration parse self) = Inr c"
    and "[b. GlobalSection b \<leftarrow> t] = gs" and "gs \<noteq> []"
  shows "globall c = Some (build_global (last gs)) \<and>
    configuration_loop c0 (xs @ GlobalSection b # ys @ GlobalSection b' # zs) =
    configuration_loop c0 (xs @ ys @ GlobalSection b' # zs)"
proof
  from assms(1,2) have "configuration_loop (Configuration t) t = Inr c"
    by (simp add: build_configuration_def)
  from configuration_loop_globall [OF this] assms(3,4)
  show "globall c = Some (build_global (last gs))"
    by simp
next
  have "configuration_loop c0 (xs @ GlobalSection b # ys @ GlobalSection b' # zs) =
      (case configuration_loop c0 xs of Inl e \<Rightarrow> Inl e
       | Inr c' \<Rightarrow> configuration_loop c' (GlobalSection b # ys @ GlobalSection b' # zs))"
    by (rule configuration_loop_append)
  also have "\<dots> =
      (case configuration_loop c0 xs of Inl e \<Rightarrow> Inl e
       | Inr c' \<Rightarrow> configuration_loop c' (ys @ GlobalSection b' # zs))"
    by (simp add: configuration_loop_overwritten split: sum.splits)
  also have "\<dots> = configuration_loop c0 (xs @ ys @ GlobalSection b' # zs)"
    by (rule configuration_loop_append [symmetric])
  finally show "configuration_loop c0 (xs @ GlobalSection b # ys @ GlobalSection b' # zs) =
    configuration_loop c0 (xs @ ys @ GlobalSection b' # zs)" .
qed

theorem last_global_wins_witness:
  "fst (build_configuration
      (\<lambda>s. Inr [GlobalSection [ConfigLine ''maxconn'' ''1024''],
                GlobalSection [ConfigLine ''maxconn'' ''2048'']])
      \<lparr>filestring = ''global'', pegtree = None\<rparr>) =
    Inr ((Configuration [GlobalSection [ConfigLine ''maxconn'' ''1024''],
                         GlobalSection [ConfigLine ''maxconn'' ''2048'']])
          \<lparr>globall := Some (build_global [ConfigLine ''maxconn'' ''2048''])\<rparr>) \<and>
   [b. GlobalSection b \<leftarrow> [GlobalSection [ConfigLine ''maxconn'' ''1024''],
                           GlobalSection [ConfigLine ''maxconn'' ''2048'']]] =
     [[ConfigLine ''maxconn'' ''1024''], [ConfigLine ''maxconn'' ''2048'']] \<and>
   globall ((Configuration [GlobalSection [ConfigLine ''maxconn'' ''1024''],
                            GlobalSection [ConfigLine ''maxconn'' ''2048'']])
          \<lparr>globall := Some (build_global [ConfigLine ''maxconn'' ''2048''])\<rparr>) =
     Some (build_global [ConfigLine ''maxconn'' ''2048'']) \<and>
   configuration_loop (Configuration [])
       [GlobalSection [ConfigLine ''maxconn'' ''1024''],
        GlobalSection [ConfigLine ''maxconn'' ''2048'']] =
     configuration_loop (Configuration []) [GlobalSection [ConfigLine ''maxconn'' ''2048'']]"
proof -
  let ?t = "[GlobalSection [ConfigLine ''maxconn'' ''1024''],
             GlobalSection [ConfigLine ''maxconn'' ''2048'']]"
  let ?parse = "\<lambda>s :: string. Inr ?t :: error + pegtree"
  let ?self = "\<lparr>filestring = ''global'', pegtree = None\<rparr>"
  let ?c = "(Configuration ?t)\<lparr>globall := Some (build_global [ConfigLine ''maxconn'' ''2048''])\<rparr>"
  let ?gs = "[[ConfigLine ''maxconn'' ''1024''], [ConfigLine ''maxconn'' ''2048'']]"
  have h1: "?parse (filestring ?self) = Inr ?t"
    by simp
  have h2: "fst (build_configuration ?parse ?self) = Inr ?c"
    by (simp add: build_configuration_def)
  have h3: "[b. GlobalSection b \<leftarrow> ?t] = ?gs"
    by simp
  have h4: "?gs \<noteq> []"
    by simp
  show ?thesis
    using h2 h3
      last_global_wins [OF h1 h2 h3 h4, of "Configuration []" "[]"
        "[ConfigLine ''maxconn'' ''1024'']" "[]" "[ConfigLine ''maxconn'' ''2048'']" "[]"]
    by simp
qed

lemma configuration_loop_skips_other:
  "configuration_loop c [n \<leftarrow> t. n \<noteq> OtherSection] = configuration_loop c t"
  by (induction t arbitrary: c) (auto split: sum.splits)

text \<open>
  C10. A node of the tree that is of none of the six section classes raises nothing
  and changes nothing: one turn of the loop on it returns the configuration as it
  was, and \<open>build_configuration\<close> gives what the loop gives on the tree without such
  nodes (the configuration still holds the whole tree it was made from).
\<close>

theorem unsupported_section_skipped:
  "configuration_section c OtherSection = Inr c \<and>
   configuration_loop c [n \<leftarrow> t. n \<noteq> OtherSection] = configuration_loop c t \<and>
   (parse (filestring self) = Inr t \<longrightarrow>
      fst (build_configuration parse self) =
        configuration_loop (Configuration t) [n \<leftarrow> t. n \<noteq> OtherSection])"
  by (simp add: configuration_loop_skips_other build_configuration_def)

theorem unsupported_section_skipped_witness:
  "(\<lambda>s :: string. Inr [OtherSection, DefaultsSection ''d'' [], OtherSection] :: error + pegtree)
      (filestring \<lparr>filestring = ''x'', pegtree = None\<rparr>) =
     Inr [OtherSection, DefaultsSection ''d'' [], OtherSection] \<and>
   fst (build_configuration (\<lambda>s. Inr [OtherSection, DefaultsSection ''d'' [], OtherSection])
      \<lparr>filestring = ''x'', pegtree = None\<rparr>) =
     configuration_loop (Configuration [OtherSection, DefaultsSection ''d'' [], OtherSection])
       [DefaultsSection ''d'' []]"
  using unsupported_section_skipped
    [of "Configuration []" "[OtherSection, DefaultsSection ''d'' [], OtherSection]"
      "\<lambda>s. Inr [OtherSection, DefaultsSection ''d'' [], OtherSection]"
      "\<lparr>filestring = ''x'', pegtree = None\<rparr>"]
  by simp

section \<open>Determinism\<close>

text \<open>
  C9. What \<open>build_configuration\<close> returns or raises depends on the \<open>filestring\<close> of
  the parser only, not on the \<open>pegtree\<close> an earlier call has left in it: two parsers
  with the same \<open>filestring\<close> give the same result, and a second call on the same
  parser gives the result of the first. The recognizer \<open>pegnode.parse\<close> is taken as
  a function of the text.
\<close>

theorem build_configuration_deterministic:
  "(filestring p = filestring q \<longrightarrow>
      fst (build_configuration parse p) = fst (build_configuration parse q)) \<and>
   fst (build_configuration parse (snd (build_configuration parse p))) =
     fst (build_configuration parse p)"
  by (simp add: build_configuration_def split: sum.splits)

theorem build_configuration_deterministic_witness:
  "filestring \<lparr>filestring = ''defaults d'', pegtree = None\<rparr> =
     filestring \<lparr>filestring = ''defaults d'', pegtree = Some [OtherSection]\<rparr> \<and>
   fst (build_configuration (\<lambda>s. Inr [DefaultsSection s []])
      \<lparr>filestring = ''defaults d'', pegtree = None\<rparr>) =
   fst (build_configuration (\<lambda>s. Inr [DefaultsSection s []])
      \<lparr>filestring = ''defaults d'', pegtree = Some [OtherSection]\<rparr>)"
  using build_configuration_deterministic
    [of "\<lparr>filestring = ''defaults d'', pegtree = None\<rparr>"
      "\<lparr>filestring = ''defaults d'', pegtree = Some [OtherSection]\<rparr>"
      "\<lambda>s. Inr [DefaultsSection s []]"]
  by simp

section \<open>Empty input\<close>

text \<open>
  C7. For a path that names no file, or a file that is empty, the constructor of the
  parser raises (an \<open>Exception\<close> with the message \<open>error reading from file\<close> and the
  path), so there is no parser to call \<open>build_configuration\<close> on: every parser that
  the constructor returns holds the text of the file, which is not empty.
\<close>

theorem empty_input_rejected:
  "(fs filepath = None \<or> fs filepath = Some [] \<longrightarrow>
      Parser fs filepath = Inl (Exception (''error reading from file '' @ filepath))) \<and>
   (\<forall>self. Parser fs filepath = Inr self \<longrightarrow>
      filestring self \<noteq> [] \<and> fs filepath = Some (filestring self))"
  by (auto simp: Parser_def read_string_from_file_def Let_def split: if_splits option.splits)

theorem empty_input_rejected_witness:
  "Map.empty ''haproxy.cfg'' = (None :: string option) \<and>
   Parser Map.empty ''haproxy.cfg'' =
     Inl (Exception ''error reading from file haproxy.cfg'') \<and>
   [''haproxy.cfg'' \<mapsto> []] ''haproxy.cfg'' = Some [] \<and>
   Parser [''haproxy.cfg'' \<mapsto> []] ''haproxy.cfg'' =
     Inl (Exception ''error reading from file haproxy.cfg'') \<and>
   Parser [''haproxy.cfg'' \<mapsto> ''global''] ''haproxy.cfg'' =
     Inr \<lparr>filestring = ''global'', pegtree = None\<rparr> \<and>
   filestring \<lparr>filestring = ''global'', pegtree = None\<rparr> \<noteq> []"
proof -
  have p: "Parser [''haproxy.cfg'' \<mapsto> ''global''] ''haproxy.cfg'' =
     Inr \<lparr>filestring = ''global'', pegtree = None\<rparr>"
    by (simp add: Parser_def read_string_from_file_def)
  show ?thesis
    using p empty_input_rejected [of Map.empty "''haproxy.cfg''"]
      empty_input_rejected [of "[''haproxy.cfg'' \<mapsto> []]" "''haproxy.cfg''"]
      empty_input_rejected [of "[''haproxy.cfg'' \<mapsto> ''global'']" "''haproxy.cfg''"]
    by simp
qed

section \<open>Users and groups\<close>

lemma config_block_loop_groups:
  "groups (config_block_loop d ls) = groups d @ [build_group n u. GroupLine n u \<leftarrow> ls]"
proof (induction ls arbitrary: d)
  case Nil
  show ?case by simp
next
  case (Cons l ls)
  show ?case by (cases l) (simp_all add: Cons.IH)
qed

lemma config_block_loop_users:
  "users (config_block_loop d ls) =
     users d @ [build_user n pw pt g. UserLine n pw pt g \<leftarrow> ls]"
proof (induction ls arbitrary: d)
  case Nil
  show ?case by simp
next
  case (Cons l ls)
  show ?case by (cases l) (simp_all add: Cons.IH)
qed

lemma split_from_no_sep:
  "c \<notin> set rest \<Longrightarrow> split_from [c] cur rest = [cur @ rest]"
  by (induction rest arbitrary: cur) auto

lemma split_from_at_sep:
  "c \<notin> set a \<Longrightarrow> split_from [c] cur (a @ c # b) = (cur @ a) # split_from [c] [] b"
  by (induction a arbitrary: cur) auto

lemma split_from_comma_join:
  "\<forall>p\<in>set ps. CHR '','' \<notin> set p \<Longrightarrow> ps \<noteq> [] \<Longrightarrow>
   split_from '','' cur (comma_join ps) = (cur @ hd ps) # tl ps"
proof (induction ps arbitrary: cur rule: comma_join.induct)
  case 1
  then show ?case by simp
next
  case (2 p)
  then show ?case by (simp add: split_from_no_sep)
next
  case (3 p q ps)
  from "3.prems" have p: "CHR '','' \<notin> set p" and r: "\<forall>p\<in>set (q # ps). CHR '','' \<notin> set p"
    by simp_all
  have "split_from '','' cur (comma_join (p # q # ps)) =
      (cur @ p) # split_from '','' [] (comma_join (q # ps))"
    using split_from_at_sep [OF p, of cur "comma_join (q # ps)"] by simp
  also have "split_from '','' [] (comma_join (q # ps)) = q # ps"
    using "3.IH" [OF r, of "[]"] by simp
  finally show ?case by simp
qed

lemma build_user_comma_join:
  assumes "\<forall>p\<in>set ps. CHR '','' \<notin> set p" and "comma_join ps \<noteq> []"
  shows "group_names (build_user n pw pt (comma_join ps)) = ps"
proof -
  from assms(2) have ne: "ps \<noteq> []" by auto
  from split_from_comma_join [OF assms(1) ne, of "[]"] ne assms(2) show ?thesis
    by (simp add: build_user_def str_split_def)
qed

text \<open>
  C8. For the userlist body \<open>group G1\<close>, \<open>user alice password x1 groups G1\<close>, whatever
  the name of the section and the password type: the built userlist has the group
  \<open>G1\<close> with no user names and the user \<open>alice\<close> with the password \<open>x1\<close> and the group
  names \<open>[G1]\<close>. The group names of a user are its groups fragment split at commas:
  a fragment that is not empty and is the pieces \<open>ps\<close>, none with a comma in it,
  joined by commas gives exactly \<open>ps\<close> (so \<open>G1,G2\<close> gives \<open>[G1, G2]\<close>), and an empty
  fragment gives no group names. The groups of a block are built from its group lines
  alone, one for each in order, and its users from its user lines alone, so no user
  line adds to a group.
\<close>

theorem userlist_group_and_user:
  "build_userlist name [GroupLine ''G1'' [], UserLine ''alice'' ''x1'' ptype ''G1''] =
     \<lparr>userlist_name = name,
      userlist_config_block =
        \<lparr>configs = [], options = [], servers = [], binds = [], acls = [], usebackends = [],
         users = [\<lparr>user_name = ''alice'', passwd = ''x1'', passwd_type = ptype,
                   group_names = [''G1'']\<rparr>],
         groups = [\<lparr>group_name = ''G1'', user_names = []\<rparr>]\<rparr>\<rparr> \<and>
   group_names (build_user n pw pt []) = [] \<and>
   ((\<forall>p\<in>set ps. CHR '','' \<notin> set p) \<and> comma_join ps \<noteq> [] \<longrightarrow>
      group_names (build_user n pw pt (comma_join ps)) = ps) \<and>
   group_names (build_user n pw pt ''G1,G2'') = [''G1'', ''G2''] \<and>
   groups (build_config_block ls) = [build_group n u. GroupLine n u \<leftarrow> ls] \<and>
   users (build_config_block ls) = [build_user n pw pt g. UserLine n pw pt g \<leftarrow> ls]"
proof (intro conjI impI)
  show "build_userlist name [GroupLine ''G1'' [], UserLine ''alice'' ''x1'' ptype ''G1''] =
     \<lparr>userlist_name = name,
      userlist_config_block =
        \<lparr>configs = [], options = [], servers = [], binds = [], acls = [], usebackends = [],
         users = [\<lparr>user_name = ''alice'', passwd = ''x1'', passwd_type = ptype,
                   group_names = [''G1'']\<rparr>],
         groups = [\<lparr>group_name = ''G1'', user_names = []\<rparr>]\<rparr>\<rparr>"
    by (simp add: build_userlist_def build_config_block_def empty_config_block_def
        build_user_def build_group_def str_split_def)
  show "group_names (build_user n pw pt []) = []"
    by (simp add: build_user_def)
  show "group_names (build_user n pw pt (comma_join ps)) = ps"
    if "(\<forall>p\<in>set ps. CHR '','' \<notin> set p) \<and> comma_join ps \<noteq> []"
    using that by (simp add: build_user_comma_join)
  show "group_names (build_user n pw pt ''G1,G2'') = [''G1'', ''G2'']"
    by (simp add: build_user_def str_split_def)
  show "groups (build_config_block ls) = [build_group n u. GroupLine n u \<leftarrow> ls]"
    by (simp add: build_config_block_def empty_config_block_def config_block_loop_groups)
  show "users (build_config_block ls) = [build_user n pw pt g. UserLine n pw pt g \<leftarrow> ls]"
    by (simp add: build_config_block_def empty_config_block_def config_block_loop_users)
qed

theorem userlist_group_and_user_witness:
  "CHR '','' \<notin> set ''G1'' \<and> CHR '','' \<notin> set ''G2'' \<and> CHR '','' \<notin> set '''' \<and>
   comma_join [''G1'', ''G2'', ''''] = ''G1,G2,'' \<and>
   group_names (build_user ''alice'' ''x1'' ''password'' ''G1,G2,'') = [''G1'', ''G2'', '''']"
proof -
  note t = userlist_group_and_user
    [where n = "''alice''" and pw = "''x1''" and pt = "''password''"
       and ps = "[''G1'', ''G2'', '''']"]
  have h: "CHR '','' \<notin> set ''G1''" "CHR '','' \<notin> set ''G2''" "CHR '','' \<notin> set ''''"
    by simp_all
  have j: "comma_join [''G1'', ''G2'', ''''] = ''G1,G2,''"
    by simp
  have b: "\<forall>p\<in>set [''G1'', ''G2'', '''']. CHR '','' \<notin> set p"
    by simp
  have ne: "comma_join [''G1'', ''G2'', ''''] \<noteq> []"
    by simp
  from t b ne have "group_names
      (build_user ''alice'' ''x1'' ''password'' (comma_join [''G1'', ''G2'', ''''])) =
      [''G1'', ''G2'', '''']"
    by blast
  then have g: "group_names (build_user ''alice'' ''x1'' ''password'' ''G1,G2,'') =
      [''G1'', ''G2'', '''']"
    by (simp only: j)
  from h j g show ?thesis
    by (intro conjI)
qed

section \<open>The attributes of a server or bind line\<close>

lemma split_from_no_tab:
  "CHR 0x09 \<notin> set rest \<Longrightarrow> split_from space_tab cur rest = [cur @ rest]"
proof (induction rest arbitrary: cur)
  case Nil
  show ?case by simp
next
  case (Cons c cs)
  have "take (length space_tab) (c # cs) \<noteq> space_tab"
  proof
    assume "take (length space_tab) (c # cs) = space_tab"
    then have "set space_tab \<subseteq> set (c # cs)"
      by (metis set_take_subset)
    then show False using Cons.prems by (auto simp: space_tab_def)
  qed
  then show ?case using Cons by simp
qed

lemma split_from_at_space_tab:
  "CHR 0x09 \<notin> set a \<Longrightarrow>
   split_from space_tab cur (a @ space_tab @ b) = (cur @ a) # split_from space_tab [] b"
proof (induction a arbitrary: cur)
  case Nil
  show ?case by (simp add: space_tab_def)
next
  case (Cons c a)
  then have "take (length space_tab) (c # a @ space_tab @ b) \<noteq> space_tab"
    by (cases a) (auto simp: space_tab_def)
  then show ?case using Cons by simp
qed

text \<open>
  C6. The attributes of a built server or bind are the value text of the line split
  at the two characters space, tab in this order, and at nothing else: a value with
  no tab in it (so one whose only blanks are single spaces) gives the one-element
  list of the whole value, and a value \<open>a\<close>, space, tab, \<open>b\<close> with no tab in \<open>a\<close> gives
  \<open>a\<close> followed by the pieces of \<open>b\<close>.
\<close>

theorem attributes_split_on_space_tab:
  "space_tab = [CHR '' '', CHR 0x09] \<and>
   server_attributes (build_server name host port val) = str_split val space_tab \<and>
   bind_attributes (build_bind host port val) = str_split val space_tab \<and>
   (CHR 0x09 \<notin> set val \<longrightarrow> str_split val space_tab = [val]) \<and>
   (CHR 0x09 \<notin> set a \<longrightarrow> str_split (a @ space_tab @ b) space_tab = a # str_split b space_tab)"
  using split_from_no_tab [of val "[]"] split_from_at_space_tab [of a "[]" b]
  by (simp add: build_server_def build_bind_def str_split_def space_tab_def)

theorem attributes_split_on_space_tab_witness:
  "CHR 0x09 \<notin> set ''maxconn 1024 weight 3'' \<and>
   server_attributes (build_server ''s1'' ''10.0.0.1'' ''80'' ''maxconn 1024 weight 3'') =
     [''maxconn 1024 weight 3''] \<and>
   bind_attributes (build_bind ''10.0.0.1'' ''80'' ''maxconn 1024 weight 3'') =
     [''maxconn 1024 weight 3''] \<and>
   CHR 0x09 \<notin> set ''check'' \<and>
   str_split (''check'' @ [CHR '' '', CHR 0x09] @ ''inter 2000'') [CHR '' '', CHR 0x09] =
     [''check'', ''inter 2000'']"
proof -
  note t = attributes_split_on_space_tab
    [of "''s1''" "''10.0.0.1''" "''80''" "''maxconn 1024 weight 3''" "''check''" "''inter 2000''"]
  note t' = attributes_split_on_space_tab
    [of "''s1''" "''10.0.0.1''" "''80''" "''inter 2000''" "''check''" "''inter 2000''"]
  have h1: "CHR 0x09 \<notin> set ''maxconn 1024 weight 3''"
    by simp
  have h2: "CHR 0x09 \<notin> set ''check''"
    by simp
  have h3: "CHR 0x09 \<notin> set ''inter 2000''"
    by simp
  from t have e: "space_tab = [CHR '' '', CHR 0x09]"
    by (rule conjunct1)
  from t h1 have s: "str_split ''maxconn 1024 weight 3'' space_tab = [''maxconn 1024 weight 3'']"
    by blast
  from t' h3 have s': "str_split ''inter 2000'' space_tab = [''inter 2000'']"
    by blast
  from t s have a1: "server_attributes
      (build_server ''s1'' ''10.0.0.1'' ''80'' ''maxconn 1024 weight 3'') =
      [''maxconn 1024 weight 3'']"
    by (elim conjE) (simp only:)
  from t s have a2: "bind_attributes (build_bind ''10.0.0.1'' ''80'' ''maxconn 1024 weight 3'') =
      [''maxconn 1024 weight 3'']"
    by (elim conjE) (simp only:)
  from t h2 have "str_split (''check'' @ space_tab @ ''inter 2000'') space_tab =
      ''check'' # str_split ''inter 2000'' space_tab"
    by blast
  then have a3: "str_split (''check'' @ space_tab @ ''inter 2000'') space_tab =
      [''check'', ''inter 2000'']"
    by (simp only: s')
  from h1 a1 a2 h2 a3 [unfolded e] show ?thesis
    by (intro conjI)
qed

end
